theory Spec2Isabelle
  imports Complex_Main "HOL-Library.Multiset"
begin

section \<open>Data model (types/game.ts, as used by the engine)\<close>

text \<open>
  JavaScript numbers that hold coordinates and times are modelled as reals (\<open>NaN\<close>
  and the infinities are left out); the counters (score, lives, level, answer values)
  only ever hold integers and are modelled as \<open>int\<close>. The string unions \<open>OperationType\<close>, the practice mode and the status
  are datatypes; their spelling as strings matters only in the high-score key.
\<close>

datatype OperationType = addition | subtraction | multiplication | division

datatype PracticeMode = all_numbers | specific

datatype GameStatus = menu | playing | gameOver

record GameSettings =
  operation :: OperationType
  practiceMode :: PracticeMode
  specificNumber :: "int option"
  practiceDuration :: nat

text \<open>
  Modelled from the spec: the declaration of \<open>MathProblem\<close> (types/game.ts) is not
  part of the sources. The spec gives it two operands, the operation and the correct
  answer; the engine reads \<open>correctAnswer\<close> only.
\<close>

record MathProblem =
  operandA :: int
  operandB :: int
  problem_operation :: OperationType
  correctAnswer :: int

record FallingAnswer =
  answer_id :: string
  answer_value :: int
  answer_x :: real
  answer_y :: real
  answer_speed :: real
  isCorrect :: bool

record Bullet =
  bullet_id :: string
  bullet_x :: real
  bullet_y :: real
  bullet_speed :: real

record GameState =
  status :: GameStatus
  settings :: "GameSettings option"
  currentProblem :: "MathProblem option"
  fallingAnswers :: "FallingAnswer list"
  bullets :: "Bullet list"
  playerX :: real
  score :: int
  lives :: int
  level :: int
  showingAnswer :: bool
  timeRemaining :: real

datatype GameAction =
    START_GAME GameSettings
  | MOVE_PLAYER real
  | SHOOT
  | UPDATE_BULLETS
  | UPDATE_GAME real
  | UPDATE_TIMER real
  | HIT_ANSWER string
  | MISS_ANSWER string
  | SHOW_CORRECT_ANSWER
  | NEXT_PROBLEM
  | GAME_OVER
  | RETURN_TO_MENU

definition GAME_WIDTH :: real where "GAME_WIDTH = 800"
definition GAME_HEIGHT :: real where "GAME_HEIGHT = 600"
definition PLAYER_SIZE :: real where "PLAYER_SIZE = 60"
definition ANSWER_SIZE :: real where "ANSWER_SIZE = 50"
definition BULLET_SPEED :: real where "BULLET_SPEED = 8"

section \<open>JSON values\<close>

text \<open>
  What \<open>JSON.parse\<close> can return: \<open>null\<close>, a boolean, a number, a string, an array or
  an object (a finite table from keys to values).
\<close>

datatype json =
    JNull
  | JBool bool
  | JNum real
  | JStr string
  | JArr "json list"
  | JObj "string \<Rightarrow> json option"

section \<open>What a dispatch reads from outside\<close>

text \<open>
  \<open>Math.random()\<close> returns a number in the half-open unit interval; the type carries
  that range, so that the shuffle index below is always inside the array.
\<close>

typedef unit_interval = "{r :: real. 0 \<le> r \<and> r < 1}"
  by (rule exI [of _ 0]) simp

text \<open>
  The reducer is not pure: it calls \<open>generateProblem\<close> and \<open>generateWrongAnswers\<close>
  (utils/mathUtils.ts, not part of the sources, and themselves random), \<open>Math.random()\<close>,
  \<open>Date.now()\<close> and \<open>new Date().toISOString()\<close>. One \<open>env\<close> holds what these calls
  return during one dispatch: \<open>random k\<close> and \<open>dateNow k\<close> are the results of the
  \<open>k\<close>-th call (counted from 0). The comparison in \<open>saveHighScore\<close> coerces its
  right operand to a number; what JavaScript's \<open>ToNumber\<close> makes of a string or an
  array (number syntax, array printing) is not spelled out here and is taken from the
  environment as \<open>toNumber\<close>, with \<open>None\<close> for \<open>NaN\<close>.
\<close>

record env =
  generateProblem :: "OperationType \<Rightarrow> int option \<Rightarrow> MathProblem"
  generateWrongAnswers :: "int \<Rightarrow> nat \<Rightarrow> int list"
  random :: "nat \<Rightarrow> unit_interval"
  dateNow :: "nat \<Rightarrow> nat"
  toISOString :: string
  toNumber :: "json \<Rightarrow> real option"

text \<open>
  Modelled from the spec: \<open>generateWrongAnswers\<close> (utils/mathUtils.ts) is not part of
  the sources. The spec promises \<open>count\<close> integers, distinct from each other and from the
  correct answer, none negative.
\<close>

definition wrongAnswers_spec :: "int \<Rightarrow> nat \<Rightarrow> int list \<Rightarrow> bool" where
  "wrongAnswers_spec correct n ws \<longleftrightarrow>
     length ws = n \<and> distinct ws \<and> correct \<notin> set ws \<and> list_all (\<lambda>w. 0 \<le> w) ws"

section \<open>Template literals: numbers as decimal strings\<close>

definition digit :: "nat \<Rightarrow> char" where
  "digit d = ''0123456789'' ! d"

fun show_nat :: "nat \<Rightarrow> string" where
  "show_nat n = (if n < 10 then [digit n] else show_nat (n div 10) @ [digit (n mod 10)])"

declare show_nat.simps [simp del]

definition show_int :: "int \<Rightarrow> string" where
  "show_int i = (if i < 0 then ''-'' @ show_nat (nat (- i)) else show_nat (nat i))"

fun show_operation :: "OperationType \<Rightarrow> string" where
  "show_operation addition = ''addition''"
| "show_operation subtraction = ''subtraction''"
| "show_operation multiplication = ''multiplication''"
| "show_operation division = ''division''"

section \<open>High scores (utils/highScores.ts)\<close>

text \<open>
  The text stored under \<open>HIGH_SCORES_KEY\<close>: the empty string, a text that
  \<open>JSON.parse\<close> rejects, or a JSON text. A JSON text is identified with the value
  \<open>JSON.parse\<close> reads from it, and \<open>JSON.stringify\<close> of a value is the text of that
  value.
\<close>

datatype stored_text = EmptyText | Malformed | Json json

datatype js_error = SecurityError | SyntaxError | QuotaExceededError | TypeError

text \<open>
  \<open>localStorage\<close>, as far as this program uses it (one key): \<open>getItem\<close> and
  \<open>setItem\<close> may throw (storage denied, quota exceeded).
\<close>

record localStorage =
  getItemThrows :: bool
  stored :: "stored_text option"
  setItemThrows :: bool

definition getItem :: "localStorage \<Rightarrow> js_error + stored_text option" where
  "getItem ls = (if getItemThrows ls then Inl SecurityError else Inr (stored ls))"

definition setItem :: "localStorage \<Rightarrow> stored_text \<Rightarrow> js_error + localStorage" where
  "setItem ls t = (if setItemThrows ls then Inl QuotaExceededError
                   else Inr (ls\<lparr>stored := Some t\<rparr>))"

fun JSON_parse :: "stored_text \<Rightarrow> js_error + json" where
  "JSON_parse EmptyText = Inl SyntaxError"
| "JSON_parse Malformed = Inl SyntaxError"
| "JSON_parse (Json v) = Inr v"

definition getScoreKey :: "GameSettings \<Rightarrow> string" where
  "getScoreKey cfg =
     (case specificNumber cfg of
        Some n \<Rightarrow>
          if practiceMode cfg = specific
          then show_operation (operation cfg) @ ''-specific-'' @ show_int n @ ''-''
                 @ show_nat (practiceDuration cfg) @ ''s''
          else show_operation (operation cfg) @ ''-all-'' @ show_nat (practiceDuration cfg) @ ''s''
      | None \<Rightarrow>
          show_operation (operation cfg) @ ''-all-'' @ show_nat (practiceDuration cfg) @ ''s'')"

text \<open>
  \<open>getHighScores\<close>: the whole body is inside \<open>try\<close>; every exception is caught
  (and logged) and the empty table returned. A missing item and the empty string are
  falsy and give the empty table without parsing. Whatever \<open>JSON.parse\<close> returns is
  passed on as it is, table or not.
\<close>

definition getHighScores :: "localStorage \<Rightarrow> json" where
  "getHighScores ls =
     (case getItem ls of
        Inl e \<Rightarrow> JObj Map.empty
      | Inr None \<Rightarrow> JObj Map.empty
      | Inr (Some t) \<Rightarrow>
          if t = EmptyText then JObj Map.empty
          else (case JSON_parse t of Inl e \<Rightarrow> JObj Map.empty | Inr v \<Rightarrow> v))"

text \<open>
  \<open>scores[key]\<close>, with \<open>None\<close> for \<open>undefined\<close>. Reading a property of \<open>null\<close>
  throws. The keys are those of \<open>getScoreKey\<close>; they contain a hyphen (lemma
  \<open>getScoreKey_hyphen\<close>), so they name no inherited property, no index and no
  \<open>length\<close>: a boolean, a number, a string and an array have no such property.
\<close>

fun get_property :: "json \<Rightarrow> string \<Rightarrow> js_error + json option" where
  "get_property JNull key = Inl TypeError"
| "get_property (JObj m) key = Inr (m key)"
| "get_property v key = Inr None"

text \<open>
  \<open>entry?.score\<close>: \<open>undefined\<close> when the entry is \<open>undefined\<close> or \<open>null\<close>; a
  boolean, a number, a string and an array have no property \<open>score\<close>.
\<close>

fun optional_score :: "json option \<Rightarrow> json option" where
  "optional_score None = None"
| "optional_score (Some (JObj f)) = f ''score''"
| "optional_score (Some v) = None"

text \<open>\<open>x || 0\<close>: 0 when \<open>x\<close> is \<open>undefined\<close> or falsy, else \<open>x\<close> itself.\<close>

fun falsy :: "json \<Rightarrow> bool" where
  "falsy JNull = True"
| "falsy (JBool b) = (\<not> b)"
| "falsy (JNum r) = (r = 0)"
| "falsy (JStr s) = (s = [])"
| "falsy (JArr xs) = False"
| "falsy (JObj m) = False"

fun or_zero :: "json option \<Rightarrow> json" where
  "or_zero None = JNum 0"
| "or_zero (Some v) = (if falsy v then JNum 0 else v)"

text \<open>
  \<open>getHighScore\<close> has no \<open>try\<close> of its own: the \<open>TypeError\<close> of \<open>scores[key]\<close>
  on \<open>null\<close> reaches the caller. Its result is whatever value is stored as the score.
\<close>

definition getHighScore :: "GameSettings \<Rightarrow> localStorage \<Rightarrow> js_error + json" where
  "getHighScore cfg ls =
     (case get_property (getHighScores ls) (getScoreKey cfg) of
        Inl err \<Rightarrow> Inl err
      | Inr entry \<Rightarrow> Inr (or_zero (optional_score entry)))"

text \<open>
  \<open>score > currentHigh\<close> with a number on the left: the right operand is turned into a
  number (\<open>true\<close> is 1, an object is \<open>NaN\<close>) and the comparison is false on \<open>NaN\<close>.
\<close>

fun to_number :: "env \<Rightarrow> json \<Rightarrow> real option" where
  "to_number e JNull = Some 0"
| "to_number e (JBool b) = Some (if b then 1 else 0)"
| "to_number e (JNum r) = Some r"
| "to_number e (JStr s) = toNumber e (JStr s)"
| "to_number e (JArr xs) = toNumber e (JArr xs)"
| "to_number e (JObj m) = None"

definition js_greater :: "env \<Rightarrow> int \<Rightarrow> json \<Rightarrow> bool" where
  "js_greater e sc v = (case to_number e v of None \<Rightarrow> False | Some r \<Rightarrow> r < real_of_int sc)"

text \<open>
  \<open>scores[key] = entry\<close>, followed by \<open>JSON.stringify(scores)\<close>: the value the written
  text holds. On an object the entry is set. On an array the assignment adds a property
  that is no index, which \<open>JSON.stringify\<close> leaves out. The module is strict code, so on
  a boolean, a number or a string the assignment throws.
\<close>

fun assign_property :: "json \<Rightarrow> string \<Rightarrow> json \<Rightarrow> js_error + json" where
  "assign_property (JObj m) key entry = Inr (JObj (m(key \<mapsto> entry)))"
| "assign_property (JArr xs) key entry = Inr (JArr xs)"
| "assign_property v key entry = Inl TypeError"

definition new_entry :: "int \<Rightarrow> string \<Rightarrow> json" where
  "new_entry sc date = JObj [''score'' \<mapsto> JNum (real_of_int sc), ''date'' \<mapsto> JStr date]"

text \<open>
  \<open>saveHighScore\<close> returns its boolean and the storage it leaves behind. Its whole
  body is inside \<open>try\<close>: the property read, the assignment and \<open>setItem\<close> can throw,
  and the \<open>catch\<close> returns false.
\<close>

definition saveHighScore :: "env \<Rightarrow> GameSettings \<Rightarrow> int \<Rightarrow> localStorage \<Rightarrow> bool \<times> localStorage" where
  "saveHighScore e cfg sc ls =
     (let scores = getHighScores ls;
          key = getScoreKey cfg
      in case get_property scores key of
           Inl err \<Rightarrow> (False, ls)
         | Inr entry \<Rightarrow>
             (let currentHigh = or_zero (optional_score entry)
              in if js_greater e sc currentHigh
                 then (case assign_property scores key (new_entry sc (toISOString e)) of
                         Inl err \<Rightarrow> (False, ls)
                       | Inr written \<Rightarrow>
                           (case setItem ls (Json written) of
                              Inl err \<Rightarrow> (False, ls)
                            | Inr ls' \<Rightarrow> (True, ls')))
                 else (False, ls)))"

section \<open>The engine (hooks/useGameEngine.ts)\<close>

definition createInitialState :: GameState where
  "createInitialState =
     \<lparr>status = menu, settings = None, currentProblem = None, fallingAnswers = [],
      bullets = [], playerX = GAME_WIDTH / 2, score = 0, lives = 3, level = 1,
      showingAnswer = False, timeRemaining = 0\<rparr>"

text \<open>
  The destructuring swap \<open>[a[i], a[j]] = [a[j], a[i]]\<close> reads both cells before it
  writes either.
\<close>

definition swap :: "nat \<Rightarrow> nat \<Rightarrow> 'a list \<Rightarrow> 'a list" where
  "swap i j xs = (xs[i := xs ! j])[j := xs ! i]"

text \<open>
  The shuffle loop \<open>for (i = length - 1; i > 0; i--)\<close>; \<open>k\<close> counts the calls of
  \<open>Math.random()\<close> made so far.
\<close>

fun shuffle_loop :: "(nat \<Rightarrow> unit_interval) \<Rightarrow> nat \<Rightarrow> nat \<Rightarrow> int list \<Rightarrow> int list" where
  "shuffle_loop rnd k 0 xs = xs"
| "shuffle_loop rnd k (Suc i) xs =
     (let j = nat \<lfloor>Rep_unit_interval (rnd k) * (real (Suc i) + 1)\<rfloor>
      in shuffle_loop rnd (Suc k) i (swap (Suc i) j xs))"

definition shuffle :: "(nat \<Rightarrow> unit_interval) \<Rightarrow> int list \<Rightarrow> int list" where
  "shuffle rnd xs = shuffle_loop rnd 0 (length xs - 1) xs"

definition make_answer :: "env \<Rightarrow> MathProblem \<Rightarrow> real \<Rightarrow> nat \<times> int \<Rightarrow> FallingAnswer" where
  "make_answer e problem spacing iv =
     (case iv of (index, v) \<Rightarrow>
        \<lparr>answer_id = ''answer-'' @ show_nat (dateNow e index) @ ''-'' @ show_nat index,
         answer_value = v,
         answer_x = spacing * (real index + 1),
         answer_y = 100,
         answer_speed = 0,
         isCorrect = (v = correctAnswer problem)\<rparr>)"

definition generateNewProblem :: "env \<Rightarrow> GameSettings \<Rightarrow> MathProblem \<times> FallingAnswer list" where
  "generateNewProblem e cfg =
     (let problem = generateProblem e (operation cfg) (specificNumber cfg);
          wrongAnswers = generateWrongAnswers e (correctAnswer problem) 3;
          allAnswers = shuffle (random e) (correctAnswer problem # wrongAnswers);
          spacing = GAME_WIDTH / (real (length allAnswers) + 1);
          answers = map (make_answer e problem spacing) (enumerate 0 allAnswers)
      in (problem, answers))"

text \<open>
  \<open>gameReducer\<close>: the new state, and the storage as \<open>saveHighScore\<close> leaves it (the
  two game-over branches call it; its boolean is dropped).
\<close>

fun gameReducer :: "env \<Rightarrow> localStorage \<Rightarrow> GameState \<Rightarrow> GameAction \<Rightarrow> GameState \<times> localStorage" where
  "gameReducer e ls state (START_GAME cfg) =
     (case generateNewProblem e cfg of (problem, answers) \<Rightarrow>
        (createInitialState
           \<lparr>status := playing, settings := Some cfg, currentProblem := Some problem,
            fallingAnswers := answers, lives := 3, score := 0, level := 1,
            timeRemaining := real (practiceDuration cfg)\<rparr>, ls))"
| "gameReducer e ls state (MOVE_PLAYER x) =
     (state\<lparr>playerX := max (PLAYER_SIZE / 2) (min (GAME_WIDTH - PLAYER_SIZE / 2) x)\<rparr>, ls)"
| "gameReducer e ls state SHOOT =
     (if status state \<noteq> playing then (state, ls)
      else
        let bullet = \<lparr>bullet_id = ''bullet-'' @ show_nat (dateNow e 0),
                      bullet_x = playerX state,
                      bullet_y = GAME_HEIGHT - PLAYER_SIZE - 10,
                      bullet_speed = BULLET_SPEED\<rparr>
        in (state\<lparr>bullets := bullets state @ [bullet]\<rparr>, ls))"
| "gameReducer e ls state UPDATE_BULLETS =
     (let updatedBullets =
            filter (\<lambda>b. bullet_y b > 0)
              (map (\<lambda>b. b\<lparr>bullet_y := bullet_y b - BULLET_SPEED\<rparr>) (bullets state))
      in (state\<lparr>bullets := updatedBullets\<rparr>, ls))"
| "gameReducer e ls state (HIT_ANSWER answerId) =
     (case find (\<lambda>a. answer_id a = answerId) (fallingAnswers state) of
        None \<Rightarrow> (state, ls)
      | Some answer \<Rightarrow>
          if isCorrect answer then
            (let newScore = score state + 10;
                 newLevel = \<lfloor>real_of_int newScore / 50\<rfloor> + 1
             in case settings state of
                  None \<Rightarrow> (state, ls)
                | Some cfg \<Rightarrow>
                    (case generateNewProblem e cfg of (problem, answers) \<Rightarrow>
                       (state\<lparr>score := newScore, level := newLevel,
                              currentProblem := Some problem, fallingAnswers := answers,
                              bullets := []\<rparr>, ls)))
          else
            (let newLives = lives state - 1
             in if newLives \<le> 0 then
                  (state\<lparr>lives := 0, status := gameOver, showingAnswer := True\<rparr>,
                   case settings state of
                     None \<Rightarrow> ls
                   | Some cfg \<Rightarrow> snd (saveHighScore e cfg (score state) ls))
                else
                  (state\<lparr>lives := newLives, showingAnswer := True, bullets := []\<rparr>, ls)))"
| "gameReducer e ls state SHOW_CORRECT_ANSWER = (state\<lparr>showingAnswer := True\<rparr>, ls)"
| "gameReducer e ls state NEXT_PROBLEM =
     (case settings state of
        None \<Rightarrow> (state, ls)
      | Some cfg \<Rightarrow>
          (case generateNewProblem e cfg of (problem, answers) \<Rightarrow>
             (state\<lparr>currentProblem := Some problem, fallingAnswers := answers,
                    showingAnswer := False, bullets := []\<rparr>, ls)))"
| "gameReducer e ls state (MISS_ANSWER answerId) =
     (state\<lparr>fallingAnswers := filter (\<lambda>a. answer_id a \<noteq> answerId) (fallingAnswers state)\<rparr>, ls)"
| "gameReducer e ls state (UPDATE_GAME deltaTime) =
     (if status state \<noteq> playing then (state, ls) else (state, ls))"
| "gameReducer e ls state (UPDATE_TIMER deltaTime) =
     (if status state \<noteq> playing then (state, ls)
      else
        let newTimeRemaining = max 0 (timeRemaining state - deltaTime)
        in if newTimeRemaining = 0 \<and> timeRemaining state > 0 then
             (state\<lparr>timeRemaining := 0, status := gameOver\<rparr>,
              case settings state of
                None \<Rightarrow> ls
              | Some cfg \<Rightarrow> snd (saveHighScore e cfg (score state) ls))
           else (state\<lparr>timeRemaining := newTimeRemaining\<rparr>, ls))"
| "gameReducer e ls state GAME_OVER = (state\<lparr>status := gameOver\<rparr>, ls)"
| "gameReducer e ls state RETURN_TO_MENU = (createInitialState, ls)"

text \<open>Dispatching a sequence of actions, each with what its dispatch reads from outside.\<close>

fun dispatch_all :: "(env \<times> GameAction) list \<Rightarrow> GameState \<times> localStorage \<Rightarrow> GameState \<times> localStorage" where
  "dispatch_all [] sl = sl"
| "dispatch_all ((e, a) # rest) sl = dispatch_all rest (gameReducer e (snd sl) (fst sl) a)"

section \<open>Notions used to state the properties\<close>

text \<open>What \<open>HIT_ANSWER\<close> finds under an id: a wrong candidate, or the correct one.\<close>

definition hits_wrong :: "GameState \<Rightarrow> string \<Rightarrow> bool" where
  "hits_wrong s answerId =
     (case find (\<lambda>a. answer_id a = answerId) (fallingAnswers s) of
        None \<Rightarrow> False | Some a \<Rightarrow> \<not> isCorrect a)"

definition hits_correct :: "GameState \<Rightarrow> string \<Rightarrow> bool" where
  "hits_correct s answerId =
     (case find (\<lambda>a. answer_id a = answerId) (fallingAnswers s) of
        None \<Rightarrow> False | Some a \<Rightarrow> isCorrect a)"

text \<open>A run of timer ticks, as the frame loop dispatches them.\<close>

fun tick_actions :: "(env \<times> real) list \<Rightarrow> (env \<times> GameAction) list" where
  "tick_actions [] = []"
| "tick_actions ((e, d) # r) = (e, UPDATE_TIMER d) # tick_actions r"

text \<open>
  A run of \<open>HIT_ANSWER\<close> dispatches, and the property that each of them finds a
  candidate of the given kind in the state it is dispatched in.
\<close>

fun hit_actions :: "(env \<times> string) list \<Rightarrow> (env \<times> GameAction) list" where
  "hit_actions [] = []"
| "hit_actions ((e, answerId) # r) = (e, HIT_ANSWER answerId) # hit_actions r"

fun all_hits :: "(GameState \<Rightarrow> string \<Rightarrow> bool) \<Rightarrow> (env \<times> string) list \<Rightarrow> GameState \<times> localStorage \<Rightarrow> bool" where
  "all_hits P [] sl = True"
| "all_hits P ((e, answerId) # r) sl =
     (P (fst sl) answerId \<and> all_hits P r (gameReducer e (snd sl) (fst sl) (HIT_ANSWER answerId)))"

text \<open>
  The two ways the storage can be out of order: it cannot be read (\<open>getItem\<close> throws,
  or the text under the key does not parse), or it cannot be written.
\<close>

definition unreadable :: "localStorage \<Rightarrow> bool" where
  "unreadable ls \<longleftrightarrow> getItemThrows ls \<or> stored ls = Some Malformed"


text \<open>
  The value \<open>getHighScores\<close> returns is a table: the store holds one, or holds nothing,
  or cannot be read. This is so from an empty store on, whatever the program writes
  (lemma \<open>table_kept\<close>).
\<close>

fun is_table :: "json \<Rightarrow> bool" where
  "is_table (JObj m) = True"
| "is_table v = False"

text \<open>
  What is required of a candidate set: four candidates, exactly one flagged correct,
  the flag set exactly on the candidates whose value is the correct answer, and the
  candidate at index \<open>i\<close> placed at \<open>x = GAME_WIDTH / 5 * (i + 1)\<close>, \<open>y = 100\<close>.
\<close>

definition candidates_ok :: "MathProblem \<Rightarrow> FallingAnswer list \<Rightarrow> bool" where
  "candidates_ok problem answers \<longleftrightarrow>
     length answers = 4
     \<and> length (filter isCorrect answers) = 1
     \<and> list_all (\<lambda>a. isCorrect a \<longleftrightarrow> answer_value a = correctAnswer problem) answers
     \<and> list_all (\<lambda>(index, a). answer_x a = GAME_WIDTH / 5 * (real index + 1) \<and> answer_y a = 100)
          (enumerate 0 answers)"

text \<open>
  The score a dispatch is specified to leave: 0 after \<open>START_GAME\<close>
  and \<open>RETURN_TO_MENU\<close>, 10 more after a hit on the correct candidate, unchanged after
  anything else.
\<close>

definition score_after :: "GameState \<Rightarrow> GameAction \<Rightarrow> int" where
  "score_after s a =
     (case a of
        START_GAME cfg \<Rightarrow> 0
      | RETURN_TO_MENU \<Rightarrow> 0
      | HIT_ANSWER answerId \<Rightarrow> if hits_correct s answerId then score s + 10 else score s
      | _ \<Rightarrow> score s)"

text \<open>
  The invariant of the reachable states: the score is a non-negative multiple of 10, and
  candidates are on screen only while settings are present.
\<close>

definition engine_inv :: "GameState \<Rightarrow> bool" where
  "engine_inv s \<longleftrightarrow>
     0 \<le> score s \<and> 10 dvd score s \<and> (fallingAnswers s = [] \<or> settings s \<noteq> None)"

section \<open>Concrete inputs\<close>

text \<open>
  One environment for the examples: the problem drawn is always 3 x 4 = 12, the wrong
  answers are the next three integers, \<open>Math.random()\<close> returns 0.5 and the clock
  stands at 1000. No store of the examples holds a string or an array as a score, so
  \<open>toNumber\<close> is never consulted; it is set to \<open>NaN\<close> throughout.
\<close>

definition demo_problem :: "OperationType \<Rightarrow> int option \<Rightarrow> MathProblem" where
  "demo_problem op n = \<lparr>operandA = 3, operandB = 4, problem_operation = op, correctAnswer = 12\<rparr>"

definition demo_env :: env where
  "demo_env = \<lparr>generateProblem = demo_problem,
               generateWrongAnswers = (\<lambda>c n. [c + 1, c + 2, c + 3]),
               random = (\<lambda>k. Abs_unit_interval (1 / 2)),
               dateNow = (\<lambda>k. 1000),
               toISOString = ''2024-01-01T00:00:00.000Z'',
               toNumber = (\<lambda>v. None)\<rparr>"

definition demo_settings :: GameSettings where
  "demo_settings = \<lparr>operation = multiplication, practiceMode = all_numbers,
                    specificNumber = None, practiceDuration = 60\<rparr>"

definition empty_storage :: localStorage where
  "empty_storage = \<lparr>getItemThrows = False, stored = None, setItemThrows = False\<rparr>"

definition demo_playing :: GameState where
  "demo_playing =
     fst (gameReducer demo_env empty_storage createInitialState (START_GAME demo_settings))"

text \<open>The same environment one second later.\<close>

definition demo_env_later :: env where
  "demo_env_later = demo_env\<lparr>dateNow := (\<lambda>k. 2000)\<rparr>"

text \<open>A game on its last life with 10 points: one correct hit, then two wrong ones.\<close>

definition demo_last_life :: GameState where
  "demo_last_life =
     fst (dispatch_all
            [(demo_env, START_GAME demo_settings), (demo_env, HIT_ANSWER ''answer-1000-0''),
             (demo_env, HIT_ANSWER ''answer-1000-1''), (demo_env, HIT_ANSWER ''answer-1000-2'')]
            (createInitialState, empty_storage))"

text \<open>
  Storages: one holding a best score of 20 for the example settings (and none for the
  same settings with 30 seconds), one whose text does
  not parse, one that cannot be written, one holding the text \<open>null\<close>, one holding the
  text of the empty array.
\<close>

definition recorded_table :: "string \<Rightarrow> json option" where
  "recorded_table =
     [''multiplication-all-60s'' \<mapsto> new_entry 20 ''2023-12-24T18:00:00.000Z'']"

definition recorded_storage :: localStorage where
  "recorded_storage =
     \<lparr>getItemThrows = False, stored = Some (Json (JObj recorded_table)), setItemThrows = False\<rparr>"

definition other_settings :: GameSettings where
  "other_settings = demo_settings\<lparr>practiceDuration := 30\<rparr>"

definition null_storage :: localStorage where
  "null_storage = \<lparr>getItemThrows = False, stored = Some (Json JNull), setItemThrows = False\<rparr>"

definition array_storage :: localStorage where
  "array_storage = \<lparr>getItemThrows = False, stored = Some (Json (JArr [])), setItemThrows = False\<rparr>"

definition corrupt_storage :: localStorage where
  "corrupt_storage = \<lparr>getItemThrows = False, stored = Some Malformed, setItemThrows = False\<rparr>"

definition full_storage :: localStorage where
  "full_storage = \<lparr>getItemThrows = False, stored = None, setItemThrows = True\<rparr>"

text \<open>
  Six hits on the correct candidate (under \<open>demo_env\<close> every candidate set has the
  same ids), and a short game: start, a correct hit, a shot, a wrong hit.
\<close>

definition demo_six_hits :: "(env \<times> string) list" where
  "demo_six_hits = replicate 6 (demo_env, ''answer-1000-0'')"

definition demo_actions :: "(env \<times> GameAction) list" where
  "demo_actions =
     [(demo_env, START_GAME demo_settings), (demo_env, HIT_ANSWER ''answer-1000-0''),
      (demo_env, SHOOT), (demo_env, HIT_ANSWER ''answer-1000-2'')]"

section \<open>Evaluating the concrete inputs\<close>

lemma rep_half: "Rep_unit_interval (Abs_unit_interval (1 / 2)) = 1 / 2"
  by (simp add: Abs_unit_interval_inverse)

lemma show_nat_digit: "n < 10 \<Longrightarrow> show_nat n = [digit n]"
  by (simp add: show_nat.simps)

lemma show_nat_small:
  "show_nat 0 = ''0''" "show_nat 1 = ''1''" "show_nat 2 = ''2''" "show_nat 3 = ''3''"
  "show_nat 1000 = ''1000''" "show_nat 60 = ''60''"
  by (simp_all add: show_nat.simps digit_def)

lemma demo_shuffle:
  "shuffle (\<lambda>k. Abs_unit_interval (1 / 2)) [12, 13, 14, 15] = [12, 15, 13, 14]"
  by (simp add: shuffle_def rep_half swap_def numeral_3_eq_3)

lemma demo_gen:
  "generateNewProblem demo_env demo_settings =
    (\<lparr>operandA = 3, operandB = 4, problem_operation = multiplication, correctAnswer = 12\<rparr>,
     [\<lparr>answer_id = ''answer-1000-0'', answer_value = 12, answer_x = 160, answer_y = 100,
         answer_speed = 0, isCorrect = True\<rparr>,
      \<lparr>answer_id = ''answer-1000-1'', answer_value = 15, answer_x = 320, answer_y = 100,
         answer_speed = 0, isCorrect = False\<rparr>,
      \<lparr>answer_id = ''answer-1000-2'', answer_value = 13, answer_x = 480, answer_y = 100,
         answer_speed = 0, isCorrect = False\<rparr>,
      \<lparr>answer_id = ''answer-1000-3'', answer_value = 14, answer_x = 640, answer_y = 100,
         answer_speed = 0, isCorrect = False\<rparr>])"
  by (simp add: generateNewProblem_def demo_env_def demo_settings_def demo_problem_def
      demo_shuffle make_answer_def enumerate_eq_zip GAME_WIDTH_def show_nat_small
      show_nat_digit digit_def Let_def)

lemma demo_playing_eq:
  "demo_playing =
     \<lparr>status = playing, settings = Some demo_settings,
      currentProblem =
        Some \<lparr>operandA = 3, operandB = 4, problem_operation = multiplication, correctAnswer = 12\<rparr>,
      fallingAnswers =
        [\<lparr>answer_id = ''answer-1000-0'', answer_value = 12, answer_x = 160, answer_y = 100,
            answer_speed = 0, isCorrect = True\<rparr>,
         \<lparr>answer_id = ''answer-1000-1'', answer_value = 15, answer_x = 320, answer_y = 100,
            answer_speed = 0, isCorrect = False\<rparr>,
         \<lparr>answer_id = ''answer-1000-2'', answer_value = 13, answer_x = 480, answer_y = 100,
            answer_speed = 0, isCorrect = False\<rparr>,
         \<lparr>answer_id = ''answer-1000-3'', answer_value = 14, answer_x = 640, answer_y = 100,
            answer_speed = 0, isCorrect = False\<rparr>],
      bullets = [], playerX = 400, score = 0, lives = 3, level = 1, showingAnswer = False,
      timeRemaining = 60\<rparr>"
  by (simp add: demo_playing_def demo_gen createInitialState_def GAME_WIDTH_def)
    (simp add: demo_settings_def)

lemma demo_last_life_eq:
  "demo_last_life = demo_playing\<lparr>score := 10, lives := 1, showingAnswer := True\<rparr>"
  by (simp add: demo_last_life_def demo_playing_eq demo_gen createInitialState_def
      GAME_WIDTH_def)
    (simp add: demo_settings_def)

lemma demo_hits:
  "hits_wrong demo_playing ''answer-1000-1''"
  "hits_wrong demo_playing ''answer-1000-2''"
  "hits_wrong demo_playing ''answer-1000-3''"
  "hits_correct demo_playing ''answer-1000-0''"
  by (simp_all add: hits_wrong_def hits_correct_def demo_playing_eq)

lemma demo_key: "getScoreKey demo_settings = ''multiplication-all-60s''"
  by (simp add: getScoreKey_def demo_settings_def show_nat_small)

lemma other_key: "getScoreKey other_settings = ''multiplication-all-30s''"
  by (simp add: getScoreKey_def other_settings_def demo_settings_def show_nat.simps digit_def)


lemma show_nat_2000: "show_nat 2000 = ''2000''"
  by (simp add: show_nat.simps digit_def)

lemma demo_gen_later:
  "generateNewProblem demo_env_later demo_settings =
    (\<lparr>operandA = 3, operandB = 4, problem_operation = multiplication, correctAnswer = 12\<rparr>,
     [\<lparr>answer_id = ''answer-2000-0'', answer_value = 12, answer_x = 160, answer_y = 100,
         answer_speed = 0, isCorrect = True\<rparr>,
      \<lparr>answer_id = ''answer-2000-1'', answer_value = 15, answer_x = 320, answer_y = 100,
         answer_speed = 0, isCorrect = False\<rparr>,
      \<lparr>answer_id = ''answer-2000-2'', answer_value = 13, answer_x = 480, answer_y = 100,
         answer_speed = 0, isCorrect = False\<rparr>,
      \<lparr>answer_id = ''answer-2000-3'', answer_value = 14, answer_x = 640, answer_y = 100,
         answer_speed = 0, isCorrect = False\<rparr>])"
  by (simp add: generateNewProblem_def demo_env_later_def demo_env_def demo_settings_def
      demo_problem_def demo_shuffle make_answer_def enumerate_eq_zip GAME_WIDTH_def
      show_nat_2000 show_nat_digit digit_def Let_def)

lemma demo_wrong_ok:
  "wrongAnswers_spec
     (correctAnswer (generateProblem demo_env (operation demo_settings) (specificNumber demo_settings)))
     3
     (generateWrongAnswers demo_env
        (correctAnswer
           (generateProblem demo_env (operation demo_settings) (specificNumber demo_settings))) 3)"
  by (simp add: wrongAnswers_spec_def demo_env_def demo_problem_def)

lemma demo_six_hits_length: "length demo_six_hits = 6"
  by (simp add: demo_six_hits_def)

lemma demo_six_hits_correct:
  "all_hits hits_correct demo_six_hits
     (gameReducer demo_env empty_storage createInitialState (START_GAME demo_settings))"
  by (simp add: demo_six_hits_def numeral_eq_Suc demo_gen hits_correct_def)

lemma demo_actions_score:
  "score (fst (dispatch_all demo_actions (createInitialState, empty_storage))) = 10"
  by (simp add: demo_actions_def demo_gen createInitialState_def)

section \<open>The countdown timer\<close>

lemma not_playing_ticks:
  "status (fst sl) \<noteq> playing \<Longrightarrow> dispatch_all (tick_actions ticks) sl = sl"
  by (induction ticks arbitrary: sl) auto

text \<open>
  C1. In a playing state with time left, an \<open>UPDATE_TIMER\<close> whose delta is at least the
  time remaining sets the time to 0 and the status to \<open>gameOver\<close> and changes nothing
  else; every run of further ticks leaves state and storage as that dispatch left them.
  Whenever the status is not \<open>playing\<close>, \<open>UPDATE_TIMER\<close> returns the state
  (and the storage) unchanged.
\<close>

theorem update_timer_expiry:
  "(status s = playing \<and> 0 < timeRemaining s \<and> timeRemaining s \<le> dt \<longrightarrow>
      fst (gameReducer e ls s (UPDATE_TIMER dt)) = s\<lparr>timeRemaining := 0, status := gameOver\<rparr>
      \<and> dispatch_all (tick_actions ticks) (gameReducer e ls s (UPDATE_TIMER dt))
          = gameReducer e ls s (UPDATE_TIMER dt))
   \<and> (status s \<noteq> playing \<longrightarrow> gameReducer e ls s (UPDATE_TIMER dt) = (s, ls))"
proof (intro conjI impI)
  assume h: "status s = playing \<and> 0 < timeRemaining s \<and> timeRemaining s \<le> dt"
  then show st:
    "fst (gameReducer e ls s (UPDATE_TIMER dt)) = s\<lparr>timeRemaining := 0, status := gameOver\<rparr>"
    by (simp add: Let_def max_def)
  have "status (fst (gameReducer e ls s (UPDATE_TIMER dt))) \<noteq> playing"
    by (simp only: st) simp
  then show "dispatch_all (tick_actions ticks) (gameReducer e ls s (UPDATE_TIMER dt))
          = gameReducer e ls s (UPDATE_TIMER dt)"
    by (rule not_playing_ticks)
next
  assume "status s \<noteq> playing"
  then show "gameReducer e ls s (UPDATE_TIMER dt) = (s, ls)" by simp
qed

theorem update_timer_expiry_witness:
  "status demo_playing = playing \<and> 0 < timeRemaining demo_playing
   \<and> timeRemaining demo_playing \<le> 75
   \<and> fst (gameReducer demo_env empty_storage demo_playing (UPDATE_TIMER 75))
       = demo_playing\<lparr>timeRemaining := 0, status := gameOver\<rparr>
   \<and> dispatch_all (tick_actions [(demo_env, 1), (demo_env, 2)])
        (gameReducer demo_env empty_storage demo_playing (UPDATE_TIMER 75))
       = gameReducer demo_env empty_storage demo_playing (UPDATE_TIMER 75)
   \<and> status createInitialState \<noteq> playing
   \<and> gameReducer demo_env empty_storage createInitialState (UPDATE_TIMER 1)
       = (createInitialState, empty_storage)"
proof -
  have h: "status demo_playing = playing \<and> 0 < timeRemaining demo_playing
           \<and> timeRemaining demo_playing \<le> 75"
    by (simp add: demo_playing_eq)
  have g: "status createInitialState \<noteq> playing"
    by (simp add: createInitialState_def)
  show ?thesis
    using h g
      update_timer_expiry [of demo_playing 75 demo_env empty_storage
        "[(demo_env, 1), (demo_env, 2)]"]
      update_timer_expiry [of createInitialState 1 demo_env empty_storage "[]"]
    by blast
qed

section \<open>Moving and shooting\<close>

text \<open>
  C5, as the claim states it, fails: in the menu state (status not \<open>playing\<close>)
  \<open>MOVE_PLAYER 100\<close> moves the player from 400 to 100.
\<close>

theorem move_in_menu_counterexample:
  "status createInitialState \<noteq> playing
   \<and> fst (gameReducer demo_env empty_storage createInitialState (MOVE_PLAYER 100))
       \<noteq> createInitialState"
  by (simp add: createInitialState_def PLAYER_SIZE_def GAME_WIDTH_def)

text \<open>
  C5, amended. While the status is not \<open>playing\<close>, \<open>SHOOT\<close> returns the state
  unchanged; \<open>MOVE_PLAYER\<close> has no status guard and still sets \<open>playerX\<close> to the
  clamped target, changing nothing else. Neither touches the storage nor fails.
\<close>

theorem not_playing_move_shoot:
  "status s \<noteq> playing \<Longrightarrow>
     gameReducer e ls s SHOOT = (s, ls)
     \<and> gameReducer e ls s (MOVE_PLAYER x) = (s\<lparr>playerX := max 30 (min 770 x)\<rparr>, ls)"
  by (simp add: PLAYER_SIZE_def GAME_WIDTH_def)

theorem not_playing_move_shoot_witness:
  "status createInitialState \<noteq> playing
   \<and> gameReducer demo_env empty_storage createInitialState SHOOT
       = (createInitialState, empty_storage)
   \<and> playerX (fst (gameReducer demo_env empty_storage createInitialState (MOVE_PLAYER 900)))
       = 770"
proof -
  have g: "status createInitialState \<noteq> playing"
    by (simp add: createInitialState_def)
  show ?thesis
    using g not_playing_move_shoot [OF g, of demo_env empty_storage 900] by simp
qed

text \<open>
  C6. For every state and every real target, \<open>MOVE_PLAYER\<close> sets \<open>playerX\<close> to the
  target clamped to [30, 770] (half the player size, and the game width less that) and
  changes nothing else: a target beyond a bound lands on the bound, a target in range is
  taken as it is.
\<close>

theorem move_player_clamps:
  "gameReducer e ls s (MOVE_PLAYER x) = (s\<lparr>playerX := max 30 (min 770 x)\<rparr>, ls)
   \<and> (x < 30 \<longrightarrow> playerX (fst (gameReducer e ls s (MOVE_PLAYER x))) = 30)
   \<and> (770 < x \<longrightarrow> playerX (fst (gameReducer e ls s (MOVE_PLAYER x))) = 770)
   \<and> (30 \<le> x \<and> x \<le> 770 \<longrightarrow> playerX (fst (gameReducer e ls s (MOVE_PLAYER x))) = x)
   \<and> PLAYER_SIZE / 2 = 30 \<and> GAME_WIDTH - PLAYER_SIZE / 2 = 770"
  by (simp add: PLAYER_SIZE_def GAME_WIDTH_def)

theorem move_player_clamps_witness:
  "(-5 :: real) < 30 \<and> playerX (fst (gameReducer demo_env empty_storage demo_playing (MOVE_PLAYER (-5)))) = 30
   \<and> (770 :: real) < 900 \<and> playerX (fst (gameReducer demo_env empty_storage demo_playing (MOVE_PLAYER 900))) = 770
   \<and> (30 :: real) \<le> 123 \<and> (123 :: real) \<le> 770
   \<and> playerX (fst (gameReducer demo_env empty_storage demo_playing (MOVE_PLAYER 123))) = 123"
  using move_player_clamps [of demo_env empty_storage demo_playing "-5"]
    move_player_clamps [of demo_env empty_storage demo_playing 900]
    move_player_clamps [of demo_env empty_storage demo_playing 123]
  by simp

section \<open>The score store\<close>

lemma getScoreKey_hyphen: "CHR ''-'' \<in> set (getScoreKey cfg)"
  by (simp add: getScoreKey_def split: option.splits)

lemma is_table_obj: "is_table v \<Longrightarrow> \<exists>m. v = JObj m"
  by (cases v) simp_all

lemma unreadable_empty: "unreadable ls \<Longrightarrow> getHighScores ls = JObj Map.empty"
  by (auto simp: unreadable_def getHighScores_def getItem_def)

lemma js_greater_num: "js_greater e sc (JNum r) \<longleftrightarrow> r < real_of_int sc"
  by (simp add: js_greater_def)

lemma lookup_on_table:
  "getHighScores ls = JObj m \<Longrightarrow>
     getHighScore cfg ls = Inr (or_zero (optional_score (m (getScoreKey cfg))))"
  by (simp add: getHighScore_def)

lemma save_on_table:
  "getHighScores ls = JObj m \<Longrightarrow>
     saveHighScore e cfg sc ls =
       (if js_greater e sc (or_zero (optional_score (m (getScoreKey cfg)))) \<and> \<not> setItemThrows ls
        then (True, ls\<lparr>stored := Some (Json (JObj (m(getScoreKey cfg \<mapsto>
                new_entry sc (toISOString e)))))\<rparr>)
        else (False, ls))"
  by (simp add: saveHighScore_def Let_def setItem_def)

lemma lookup_after_write:
  "\<not> getItemThrows ls \<Longrightarrow>
     getHighScore cfg (ls\<lparr>stored := Some (Json (JObj (m(getScoreKey cfg \<mapsto> new_entry sc d))))\<rparr>)
       = Inr (JNum (real_of_int sc))"
  by (simp add: getHighScore_def getHighScores_def getItem_def new_entry_def)

lemma save_false_keeps: "\<not> fst (saveHighScore e cfg sc ls) \<Longrightarrow> snd (saveHighScore e cfg sc ls) = ls"
  by (auto simp: saveHighScore_def Let_def setItem_def split: sum.splits if_splits)

lemma save_needs_write: "setItemThrows ls \<Longrightarrow> \<not> fst (saveHighScore e cfg sc ls)"
  by (auto simp: saveHighScore_def Let_def setItem_def split: sum.splits if_splits)


text \<open>
  A store whose value is a table stays one under everything the program writes.
\<close>

lemma table_kept_save:
  "is_table (getHighScores ls) \<Longrightarrow> is_table (getHighScores (snd (saveHighScore e cfg sc ls)))"
proof -
  assume t: "is_table (getHighScores ls)"
  then obtain m where m: "getHighScores ls = JObj m"
    using is_table_obj by blast
  show ?thesis
    using t by (simp add: save_on_table [OF m]) (simp add: getHighScores_def getItem_def)
qed

lemma table_kept_step:
  "is_table (getHighScores ls) \<Longrightarrow> is_table (getHighScores (snd (gameReducer e ls s a)))"
  by (cases a) (auto simp: Let_def split_beta table_kept_save split: option.splits)

lemma table_kept:
  "is_table (getHighScores (snd sl)) \<Longrightarrow> is_table (getHighScores (snd (dispatch_all acts sl)))"
proof (induction acts arbitrary: sl)
  case Nil
  then show ?case by simp
next
  case (Cons x acts)
  obtain e a where x: "x = (e, a)" by (cases x)
  have "is_table (getHighScores (snd (gameReducer e (snd sl) (fst sl) a)))"
    using Cons.prems by (rule table_kept_step)
  then have "is_table (getHighScores (snd (dispatch_all acts (gameReducer e (snd sl) (fst sl) a))))"
    by (rule Cons.IH)
  then show ?case by (simp add: x del: gameReducer.simps)
qed

text \<open>
  Stores that hold JSON which is no table: on the text \<open>null\<close> the lookup throws and
  the save returns false; on the text of an array the save returns true and records
  nothing.
\<close>

lemma lookup_on_null: "getHighScore cfg null_storage = Inl TypeError"
  by (simp add: getHighScore_def getHighScores_def getItem_def null_storage_def)

lemma save_on_null: "saveHighScore e cfg sc null_storage = (False, null_storage)"
  by (simp add: saveHighScore_def getHighScores_def getItem_def null_storage_def)

lemma save_on_array:
  "saveHighScore demo_env demo_settings 10 array_storage = (True, array_storage)"
  "getHighScore demo_settings array_storage = Inr (JNum 0)"
  by (simp_all add: saveHighScore_def getHighScore_def getHighScores_def getItem_def setItem_def
      array_storage_def js_greater_def)

section \<open>Hits on a wrong candidate\<close>

lemma wrong_hit_step:
  assumes "hits_wrong s aid"
  shows "gameReducer e ls s (HIT_ANSWER aid) =
     (if lives s - 1 \<le> 0
      then (s\<lparr>lives := 0, status := gameOver, showingAnswer := True\<rparr>,
            case settings s of None \<Rightarrow> ls | Some cfg \<Rightarrow> snd (saveHighScore e cfg (score s) ls))
      else (s\<lparr>lives := lives s - 1, showingAnswer := True, bullets := []\<rparr>, ls))"
  using assms by (auto simp: hits_wrong_def Let_def split: option.splits)



text \<open>
  C9. A wrong hit with at least two lives changes \<open>lives\<close>, \<open>showingAnswer\<close> and
  \<open>bullets\<close> only: the candidates, the problem, score, level, status, settings,
  \<open>playerX\<close> and the time remaining stay as they were, the storage too, and the
  candidate that was hit is still found under its id.
\<close>

theorem wrong_hit_frame:
  "2 \<le> lives s \<Longrightarrow> find (\<lambda>a. answer_id a = aid) (fallingAnswers s) = Some a \<Longrightarrow> \<not> isCorrect a \<Longrightarrow>
     gameReducer e ls s (HIT_ANSWER aid)
       = (s\<lparr>lives := lives s - 1, showingAnswer := True, bullets := []\<rparr>, ls)
     \<and> fallingAnswers (fst (gameReducer e ls s (HIT_ANSWER aid))) = fallingAnswers s
     \<and> currentProblem (fst (gameReducer e ls s (HIT_ANSWER aid))) = currentProblem s
     \<and> score (fst (gameReducer e ls s (HIT_ANSWER aid))) = score s
     \<and> level (fst (gameReducer e ls s (HIT_ANSWER aid))) = level s
     \<and> status (fst (gameReducer e ls s (HIT_ANSWER aid))) = status s
     \<and> settings (fst (gameReducer e ls s (HIT_ANSWER aid))) = settings s
     \<and> playerX (fst (gameReducer e ls s (HIT_ANSWER aid))) = playerX s
     \<and> timeRemaining (fst (gameReducer e ls s (HIT_ANSWER aid))) = timeRemaining s
     \<and> find (\<lambda>a. answer_id a = aid) (fallingAnswers (fst (gameReducer e ls s (HIT_ANSWER aid))))
         = Some a"
  by (simp add: Let_def)

theorem wrong_hit_frame_witness:
  "2 \<le> lives demo_playing
   \<and> find (\<lambda>a. answer_id a = ''answer-1000-2'') (fallingAnswers demo_playing)
       = Some \<lparr>answer_id = ''answer-1000-2'', answer_value = 13, answer_x = 480, answer_y = 100,
                answer_speed = 0, isCorrect = False\<rparr>
   \<and> fallingAnswers (fst (gameReducer demo_env empty_storage demo_playing (HIT_ANSWER ''answer-1000-2'')))
       = fallingAnswers demo_playing
   \<and> lives (fst (gameReducer demo_env empty_storage demo_playing (HIT_ANSWER ''answer-1000-2''))) = 2"
proof -
  have l: "2 \<le> lives demo_playing"
    by (simp add: demo_playing_eq)
  have f: "find (\<lambda>a. answer_id a = ''answer-1000-2'') (fallingAnswers demo_playing)
       = Some \<lparr>answer_id = ''answer-1000-2'', answer_value = 13, answer_x = 480, answer_y = 100,
                answer_speed = 0, isCorrect = False\<rparr>"
    by (simp add: demo_playing_eq)
  have n: "\<not> isCorrect \<lparr>answer_id = ''answer-1000-2'', answer_value = 13, answer_x = 480,
                answer_y = 100, answer_speed = 0, isCorrect = False\<rparr>"
    by simp
  show ?thesis
    using l f wrong_hit_frame [OF l f n, of demo_env empty_storage]
    by (simp add: demo_playing_eq del: gameReducer.simps)
qed

section \<open>Repeating a hit\<close>

lemma absent_hit:
  "find (\<lambda>a. answer_id a = aid) (fallingAnswers s) = None \<Longrightarrow>
     gameReducer e ls s (HIT_ANSWER aid) = (s, ls)"
  by simp

text \<open>
  C4, as the claim states it, fails: a wrong hit that is not fatal leaves the candidate
  in the list, and the same \<open>HIT_ANSWER\<close> dispatched again takes another life.
\<close>

theorem repeated_wrong_hit_counterexample:
  "fst (gameReducer demo_env empty_storage
          (fst (gameReducer demo_env empty_storage demo_playing (HIT_ANSWER ''answer-1000-1'')))
          (HIT_ANSWER ''answer-1000-1''))
     \<noteq> fst (gameReducer demo_env empty_storage demo_playing (HIT_ANSWER ''answer-1000-1''))"
proof -
  have a: "lives (fst (gameReducer demo_env empty_storage demo_playing
             (HIT_ANSWER ''answer-1000-1''))) = 2"
    by (simp add: demo_playing_eq)
  have b: "lives (fst (gameReducer demo_env empty_storage
          (fst (gameReducer demo_env empty_storage demo_playing (HIT_ANSWER ''answer-1000-1'')))
          (HIT_ANSWER ''answer-1000-1''))) = 1"
    by (simp add: demo_playing_eq)
  show ?thesis
  proof
    assume "fst (gameReducer demo_env empty_storage
          (fst (gameReducer demo_env empty_storage demo_playing (HIT_ANSWER ''answer-1000-1'')))
          (HIT_ANSWER ''answer-1000-1''))
       = fst (gameReducer demo_env empty_storage demo_playing (HIT_ANSWER ''answer-1000-1''))"
    with a b have "(1 :: int) = 2"
      by (simp only:)
    then show False by simp
  qed
qed

text \<open>
  C4, amended. \<open>HIT_ANSWER\<close> with an id that is not in the candidate list returns state
  and storage unchanged; so a second dispatch with the same id is a no-op whenever the
  first resolution took the id out of the list. After a fatal wrong hit the second
  dispatch returns the same state again. After a wrong hit that is not fatal the
  candidate is still listed and the second dispatch takes a further life.
\<close>

theorem repeated_hit:
  "(find (\<lambda>a. answer_id a = aid) (fallingAnswers s) = None \<longrightarrow>
      gameReducer e ls s (HIT_ANSWER aid) = (s, ls))
   \<and> (find (\<lambda>a. answer_id a = aid)
         (fallingAnswers (fst (gameReducer e ls s (HIT_ANSWER aid)))) = None \<longrightarrow>
      gameReducer e2 ls2 (fst (gameReducer e ls s (HIT_ANSWER aid))) (HIT_ANSWER aid)
        = (fst (gameReducer e ls s (HIT_ANSWER aid)), ls2))
   \<and> (hits_wrong s aid \<and> lives s - 1 \<le> 0 \<longrightarrow>
      fst (gameReducer e2 ls2 (fst (gameReducer e ls s (HIT_ANSWER aid))) (HIT_ANSWER aid))
        = fst (gameReducer e ls s (HIT_ANSWER aid)))
   \<and> (hits_wrong s aid \<and> 0 < lives s - 1 \<longrightarrow>
      lives (fst (gameReducer e2 ls2 (fst (gameReducer e ls s (HIT_ANSWER aid))) (HIT_ANSWER aid)))
        < lives (fst (gameReducer e ls s (HIT_ANSWER aid))))"
proof (intro conjI impI)
  assume "find (\<lambda>a. answer_id a = aid) (fallingAnswers s) = None"
  then show "gameReducer e ls s (HIT_ANSWER aid) = (s, ls)"
    by (rule absent_hit)
next
  assume "find (\<lambda>a. answer_id a = aid)
         (fallingAnswers (fst (gameReducer e ls s (HIT_ANSWER aid)))) = None"
  then show "gameReducer e2 ls2 (fst (gameReducer e ls s (HIT_ANSWER aid))) (HIT_ANSWER aid)
        = (fst (gameReducer e ls s (HIT_ANSWER aid)), ls2)"
    by (rule absent_hit)
next
  assume h: "hits_wrong s aid \<and> lives s - 1 \<le> 0"
  define s1 where "s1 = s\<lparr>lives := 0, status := gameOver, showingAnswer := True\<rparr>"
  have r1: "fst (gameReducer e ls s (HIT_ANSWER aid)) = s1"
    using h by (simp add: wrong_hit_step s1_def del: gameReducer.simps)
  have w: "hits_wrong s1 aid"
    using h by (simp add: hits_wrong_def s1_def)
  have "fst (gameReducer e2 ls2 s1 (HIT_ANSWER aid)) = s1"
    by (simp add: wrong_hit_step [OF w] del: gameReducer.simps) (simp add: s1_def)
  then show "fst (gameReducer e2 ls2 (fst (gameReducer e ls s (HIT_ANSWER aid))) (HIT_ANSWER aid))
        = fst (gameReducer e ls s (HIT_ANSWER aid))"
    by (simp only: r1)
next
  assume h: "hits_wrong s aid \<and> 0 < lives s - 1"
  define s1 where "s1 = s\<lparr>lives := lives s - 1, showingAnswer := True, bullets := []\<rparr>"
  have r1: "fst (gameReducer e ls s (HIT_ANSWER aid)) = s1"
    using h by (simp add: wrong_hit_step s1_def del: gameReducer.simps)
  have w: "hits_wrong s1 aid"
    using h by (simp add: hits_wrong_def s1_def)
  have "lives (fst (gameReducer e2 ls2 s1 (HIT_ANSWER aid))) < lives s1"
    using h by (simp add: wrong_hit_step [OF w] del: gameReducer.simps) (simp add: s1_def)
  then show "lives (fst (gameReducer e2 ls2 (fst (gameReducer e ls s (HIT_ANSWER aid))) (HIT_ANSWER aid)))
        < lives (fst (gameReducer e ls s (HIT_ANSWER aid)))"
    by (simp only: r1)
qed

theorem repeated_hit_witness:
  "find (\<lambda>a. answer_id a = ''answer-9-9'') (fallingAnswers demo_playing) = None
   \<and> gameReducer demo_env empty_storage demo_playing (HIT_ANSWER ''answer-9-9'')
       = (demo_playing, empty_storage)
   \<and> find (\<lambda>a. answer_id a = ''answer-1000-0'')
         (fallingAnswers (fst (gameReducer demo_env_later empty_storage demo_playing
            (HIT_ANSWER ''answer-1000-0'')))) = None
   \<and> gameReducer demo_env empty_storage
         (fst (gameReducer demo_env_later empty_storage demo_playing (HIT_ANSWER ''answer-1000-0'')))
         (HIT_ANSWER ''answer-1000-0'')
       = (fst (gameReducer demo_env_later empty_storage demo_playing (HIT_ANSWER ''answer-1000-0'')),
          empty_storage)
   \<and> hits_wrong demo_last_life ''answer-1000-1'' \<and> lives demo_last_life - 1 \<le> 0
   \<and> fst (gameReducer demo_env empty_storage
         (fst (gameReducer demo_env empty_storage demo_last_life (HIT_ANSWER ''answer-1000-1'')))
         (HIT_ANSWER ''answer-1000-1''))
       = fst (gameReducer demo_env empty_storage demo_last_life (HIT_ANSWER ''answer-1000-1''))
   \<and> hits_wrong demo_playing ''answer-1000-1'' \<and> 0 < lives demo_playing - 1
   \<and> lives (fst (gameReducer demo_env empty_storage
         (fst (gameReducer demo_env empty_storage demo_playing (HIT_ANSWER ''answer-1000-1'')))
         (HIT_ANSWER ''answer-1000-1'')))
       < lives (fst (gameReducer demo_env empty_storage demo_playing (HIT_ANSWER ''answer-1000-1'')))"
proof -
  have a: "find (\<lambda>a. answer_id a = ''answer-9-9'') (fallingAnswers demo_playing) = None"
    by (simp add: demo_playing_eq)
  have b: "find (\<lambda>a. answer_id a = ''answer-1000-0'')
         (fallingAnswers (fst (gameReducer demo_env_later empty_storage demo_playing
            (HIT_ANSWER ''answer-1000-0'')))) = None"
    by (simp add: demo_playing_eq demo_gen_later)
  have c: "hits_wrong demo_last_life ''answer-1000-1''" "lives demo_last_life - 1 \<le> 0"
    by (simp_all add: hits_wrong_def demo_last_life_eq demo_playing_eq)
  have d: "hits_wrong demo_playing ''answer-1000-1''" "0 < lives demo_playing - 1"
    by (simp_all add: hits_wrong_def demo_playing_eq)
  show ?thesis
    using a b c d
      repeated_hit [of "''answer-9-9''" demo_playing demo_env empty_storage demo_env empty_storage]
      repeated_hit [of "''answer-1000-0''" demo_playing demo_env_later empty_storage
        demo_env empty_storage]
      repeated_hit [of "''answer-1000-1''" demo_last_life demo_env empty_storage
        demo_env empty_storage]
      repeated_hit [of "''answer-1000-1''" demo_playing demo_env empty_storage
        demo_env empty_storage]
    by blast
qed

section \<open>The contract of the score store\<close>

text \<open>
  C8, as the claim states it, fails: with a stored text that does not parse (an
  unreadable store) and a working \<open>setItem\<close>, \<open>saveHighScore\<close> with score 10
  returns true.
\<close>

theorem save_on_corrupt_counterexample:
  "stored corrupt_storage = Some Malformed
   \<and> JSON_parse Malformed = Inl SyntaxError
   \<and> getHighScore demo_settings corrupt_storage = Inr (JNum 0)
   \<and> fst (saveHighScore demo_env demo_settings 10 corrupt_storage)"
  by (simp add: corrupt_storage_def saveHighScore_def getHighScore_def getHighScores_def
      getItem_def setItem_def js_greater_def)

text \<open>
  C8, amended. \<open>getHighScore\<close> returns the stored best score, and 0 when none is
  recorded or the store cannot be read. When the store holds a table of scores (or
  nothing, or cannot be read), \<open>saveHighScore\<close> returns true exactly when the score is
  above the best \<open>getHighScore\<close> reports and the write succeeds; it then records the
  score. Whenever it returns false the storage is as it was. So on a store that cannot
  be read but can be written it takes the best to be 0 and returns true for every
  positive score; on a store that cannot be written it returns false. \<open>saveHighScore\<close>
  returns its pair in every case, so it passes no exception on; \<open>getHighScore\<close> passes
  none on unless the stored text is the JSON value \<open>null\<close>, a case left open here.
\<close>

theorem score_store_contract:
  "(\<not> getItemThrows ls \<and> stored ls = None \<longrightarrow> getHighScore cfg ls = Inr (JNum 0))
   \<and> (\<not> getItemThrows ls \<and> stored ls = Some (Json (JObj m)) \<and> m (getScoreKey cfg) = None \<longrightarrow>
        getHighScore cfg ls = Inr (JNum 0))
   \<and> (\<not> getItemThrows ls \<and> stored ls = Some (Json (JObj m))
        \<and> m (getScoreKey cfg) = Some (JObj f) \<and> f ''score'' = Some (JNum r) \<longrightarrow>
        getHighScore cfg ls = Inr (JNum r))
   \<and> (unreadable ls \<longrightarrow> getHighScore cfg ls = Inr (JNum 0))
   \<and> (is_table (getHighScores ls) \<and> getHighScore cfg ls = Inr (JNum r) \<longrightarrow>
        (fst (saveHighScore e cfg sc ls) \<longleftrightarrow> r < real_of_int sc \<and> \<not> setItemThrows ls))
   \<and> (is_table (getHighScores ls) \<and> \<not> getItemThrows ls \<and> fst (saveHighScore e cfg sc ls) \<longrightarrow>
        getHighScore cfg (snd (saveHighScore e cfg sc ls)) = Inr (JNum (real_of_int sc)))
   \<and> (\<not> fst (saveHighScore e cfg sc ls) \<longrightarrow> snd (saveHighScore e cfg sc ls) = ls)
   \<and> (unreadable ls \<and> \<not> setItemThrows ls \<longrightarrow> (fst (saveHighScore e cfg sc ls) \<longleftrightarrow> 0 < sc))
   \<and> (setItemThrows ls \<longrightarrow> \<not> fst (saveHighScore e cfg sc ls))
   \<and> (getHighScores ls \<noteq> JNull \<longrightarrow> \<not> isl (getHighScore cfg ls))"
proof (intro conjI impI)
  assume "\<not> getItemThrows ls \<and> stored ls = None"
  then show "getHighScore cfg ls = Inr (JNum 0)"
    by (simp add: getHighScore_def getHighScores_def getItem_def)
next
  assume "\<not> getItemThrows ls \<and> stored ls = Some (Json (JObj m)) \<and> m (getScoreKey cfg) = None"
  then show "getHighScore cfg ls = Inr (JNum 0)"
    by (simp add: getHighScore_def getHighScores_def getItem_def)
next
  assume "\<not> getItemThrows ls \<and> stored ls = Some (Json (JObj m))
        \<and> m (getScoreKey cfg) = Some (JObj f) \<and> f ''score'' = Some (JNum r)"
  then show "getHighScore cfg ls = Inr (JNum r)"
    by (simp add: getHighScore_def getHighScores_def getItem_def)
next
  assume "unreadable ls"
  then show "getHighScore cfg ls = Inr (JNum 0)"
    by (simp add: lookup_on_table [OF unreadable_empty])
next
  assume h: "is_table (getHighScores ls) \<and> getHighScore cfg ls = Inr (JNum r)"
  then obtain t where t: "getHighScores ls = JObj t"
    using is_table_obj by blast
  have "or_zero (optional_score (t (getScoreKey cfg))) = JNum r"
    using h by (simp add: lookup_on_table [OF t])
  then show "fst (saveHighScore e cfg sc ls) \<longleftrightarrow> r < real_of_int sc \<and> \<not> setItemThrows ls"
    by (simp add: save_on_table [OF t] js_greater_num)
next
  assume h: "is_table (getHighScores ls) \<and> \<not> getItemThrows ls \<and> fst (saveHighScore e cfg sc ls)"
  then obtain t where t: "getHighScores ls = JObj t"
    using is_table_obj by blast
  have "snd (saveHighScore e cfg sc ls)
          = ls\<lparr>stored := Some (Json (JObj (t(getScoreKey cfg \<mapsto>
                new_entry sc (toISOString e)))))\<rparr>"
    using h by (simp add: save_on_table [OF t] split: if_splits)
  then show "getHighScore cfg (snd (saveHighScore e cfg sc ls)) = Inr (JNum (real_of_int sc))"
    using h by (simp add: lookup_after_write)
next
  assume "\<not> fst (saveHighScore e cfg sc ls)"
  then show "snd (saveHighScore e cfg sc ls) = ls"
    by (rule save_false_keeps)
next
  assume h: "unreadable ls \<and> \<not> setItemThrows ls"
  then have t: "getHighScores ls = JObj Map.empty"
    by (simp add: unreadable_empty)
  show "fst (saveHighScore e cfg sc ls) \<longleftrightarrow> 0 < sc"
    using h by (simp add: save_on_table [OF t] js_greater_num)
next
  assume "setItemThrows ls"
  then show "\<not> fst (saveHighScore e cfg sc ls)"
    by (rule save_needs_write)
next
  assume "getHighScores ls \<noteq> JNull"
  then show "\<not> isl (getHighScore cfg ls)"
    by (cases "getHighScores ls") (simp_all add: getHighScore_def)
qed

theorem score_store_contract_witness:
  "\<not> getItemThrows empty_storage \<and> stored empty_storage = None
   \<and> getHighScore demo_settings empty_storage = Inr (JNum 0)
   \<and> \<not> getItemThrows recorded_storage
   \<and> stored recorded_storage = Some (Json (JObj recorded_table))
   \<and> recorded_table (getScoreKey other_settings) = None
   \<and> getHighScore other_settings recorded_storage = Inr (JNum 0)
   \<and> getHighScore demo_settings recorded_storage = Inr (JNum 20)
   \<and> is_table (getHighScores recorded_storage)
   \<and> unreadable corrupt_storage \<and> \<not> setItemThrows corrupt_storage
   \<and> getHighScore demo_settings corrupt_storage = Inr (JNum 0)
   \<and> fst (saveHighScore demo_env demo_settings 10 corrupt_storage)
   \<and> fst (saveHighScore demo_env demo_settings 30 recorded_storage)
   \<and> getHighScore demo_settings (snd (saveHighScore demo_env demo_settings 30 recorded_storage))
       = Inr (JNum 30)
   \<and> \<not> fst (saveHighScore demo_env demo_settings 20 recorded_storage)
   \<and> snd (saveHighScore demo_env demo_settings 20 recorded_storage) = recorded_storage
   \<and> setItemThrows full_storage
   \<and> \<not> fst (saveHighScore demo_env demo_settings 10 full_storage)
   \<and> getHighScores recorded_storage \<noteq> JNull
   \<and> \<not> isl (getHighScore demo_settings recorded_storage)"
proof -
  let ?f = "[''score'' \<mapsto> JNum 20, ''date'' \<mapsto> JStr ''2023-12-24T18:00:00.000Z'']"
  have a: "\<not> getItemThrows empty_storage \<and> stored empty_storage = None"
    by (simp add: empty_storage_def)
  have b: "\<not> getItemThrows recorded_storage"
    "stored recorded_storage = Some (Json (JObj recorded_table))"
    "\<not> setItemThrows recorded_storage"
    by (simp_all add: recorded_storage_def)
  have b1: "recorded_table (getScoreKey other_settings) = None"
    by (simp add: recorded_table_def other_key)
  have b2: "recorded_table (getScoreKey demo_settings) = Some (JObj ?f)" "?f ''score'' = Some (JNum 20)"
    by (simp_all add: recorded_table_def demo_key new_entry_def)
  have b3: "is_table (getHighScores recorded_storage)" "getHighScores recorded_storage \<noteq> JNull"
    by (simp_all add: getHighScores_def getItem_def recorded_storage_def)
  have c: "unreadable corrupt_storage \<and> \<not> setItemThrows corrupt_storage"
    by (simp add: unreadable_def corrupt_storage_def)
  have d: "setItemThrows full_storage"
    by (simp add: full_storage_def)
  note t1 = score_store_contract [of empty_storage demo_settings recorded_table ?f 20 demo_env 10]
  note t2 = score_store_contract [of recorded_storage demo_settings recorded_table ?f 20 demo_env 30]
  note t3 = score_store_contract [of recorded_storage demo_settings recorded_table ?f 20 demo_env 20]
  note t4 = score_store_contract [of corrupt_storage demo_settings recorded_table ?f 20 demo_env 10]
  note t5 = score_store_contract [of full_storage demo_settings recorded_table ?f 20 demo_env 10]
  note t6 = score_store_contract [of recorded_storage other_settings recorded_table ?f 20 demo_env 10]
  have g0: "getHighScore demo_settings empty_storage = Inr (JNum 0)"
    using t1 [THEN conjunct1] a by (rule mp)
  have o: "getHighScore other_settings recorded_storage = Inr (JNum 0)"
    using t6 [THEN conjunct2, THEN conjunct1] b b1 by simp
  have r: "getHighScore demo_settings recorded_storage = Inr (JNum 20)"
    using t2 [THEN conjunct2, THEN conjunct2, THEN conjunct1] b b2 by simp
  have k: "getHighScore demo_settings corrupt_storage = Inr (JNum 0)"
    using t4 [THEN conjunct2, THEN conjunct2, THEN conjunct2, THEN conjunct1] c by simp
  note five = conjunct2 [THEN conjunct2, THEN conjunct2, THEN conjunct2, THEN conjunct1]
  note six = conjunct2 [THEN conjunct2, THEN conjunct2, THEN conjunct2, THEN conjunct2,
      THEN conjunct1]
  note seven = conjunct2 [THEN conjunct2, THEN conjunct2, THEN conjunct2, THEN conjunct2,
      THEN conjunct2, THEN conjunct1]
  note eight = conjunct2 [THEN conjunct2, THEN conjunct2, THEN conjunct2, THEN conjunct2,
      THEN conjunct2, THEN conjunct2, THEN conjunct1]
  note nine = conjunct2 [THEN conjunct2, THEN conjunct2, THEN conjunct2, THEN conjunct2,
      THEN conjunct2, THEN conjunct2, THEN conjunct2, THEN conjunct1]
  note ten = conjunct2 [THEN conjunct2, THEN conjunct2, THEN conjunct2, THEN conjunct2,
      THEN conjunct2, THEN conjunct2, THEN conjunct2, THEN conjunct2]
  have s30: "fst (saveHighScore demo_env demo_settings 30 recorded_storage)"
    using t2 [THEN five] b b3 r by simp
  have s20: "\<not> fst (saveHighScore demo_env demo_settings 20 recorded_storage)"
    using t3 [THEN five] b3 r by simp
  have s10: "fst (saveHighScore demo_env demo_settings 10 corrupt_storage)"
    using t4 [THEN eight] c by simp
  have a30: "getHighScore demo_settings
      (snd (saveHighScore demo_env demo_settings 30 recorded_storage)) = Inr (JNum 30)"
    using t2 [THEN six] s30 b b3 by simp
  have u20: "snd (saveHighScore demo_env demo_settings 20 recorded_storage) = recorded_storage"
    using t3 [THEN seven] s20 by simp
  have f10: "\<not> fst (saveHighScore demo_env demo_settings 10 full_storage)"
    using t5 [THEN nine] d by simp
  have n: "\<not> isl (getHighScore demo_settings recorded_storage)"
    using t2 [THEN ten] b3 by simp
  from a b b1 b3 c d g0 o r k s30 s20 s10 a30 u20 f10 n show ?thesis
    by simp
qed

section \<open>Candidate sets\<close>

lemma swap_mset: "i < length xs \<Longrightarrow> j < length xs \<Longrightarrow> mset (swap i j xs) = mset xs"
  by (simp add: swap_def mset_swap)

lemma swap_length: "length (swap i j xs) = length xs"
  by (simp add: swap_def)

lemma random_index: "nat \<lfloor>Rep_unit_interval r * (real (Suc i) + 1)\<rfloor> \<le> Suc i"
proof -
  have r: "0 \<le> Rep_unit_interval r" "Rep_unit_interval r < 1"
    using Rep_unit_interval [of r] by simp_all
  have "Rep_unit_interval r * (real (Suc i) + 1) < real (Suc i) + 1"
    using r by (simp add: mult_less_cancel_right1  del: of_nat_Suc)
  then have "Rep_unit_interval r * (real (Suc i) + 1) < of_int (int (Suc i) + 1)"
    by simp
  then have "\<lfloor>Rep_unit_interval r * (real (Suc i) + 1)\<rfloor> < int (Suc i) + 1"
    by (simp only: floor_less_iff)
  then show ?thesis by linarith
qed

lemma shuffle_loop_mset:
  "i < length xs \<Longrightarrow> mset (shuffle_loop rnd k i xs) = mset xs"
proof (induction i arbitrary: k xs)
  case 0
  then show ?case by simp
next
  case (Suc i)
  let ?j = "nat \<lfloor>Rep_unit_interval (rnd k) * (real (Suc i) + 1)\<rfloor>"
  have j: "?j < length xs"
    using random_index [of "rnd k" i] Suc.prems by linarith
  have "mset (shuffle_loop rnd (Suc k) i (swap (Suc i) ?j xs)) = mset (swap (Suc i) ?j xs)"
    using Suc.prems by (intro Suc.IH) (simp add: swap_length)
  also have "\<dots> = mset xs"
    using Suc.prems j by (rule swap_mset)
  finally show ?case
    by (simp add: Let_def del: of_nat_Suc)
qed

lemma shuffle_mset: "mset (shuffle rnd xs) = mset xs"
proof (cases xs)
  case Nil
  then show ?thesis by (simp add: shuffle_def)
next
  case (Cons x ys)
  then show ?thesis
    unfolding shuffle_def by (intro shuffle_loop_mset) simp
qed

lemma shuffle_length: "length (shuffle rnd xs) = length xs"
  using shuffle_mset [of rnd xs] by (metis size_mset)

lemma shuffle_count:
  "length (filter (\<lambda>v. v = c) (shuffle rnd xs)) = length (filter (\<lambda>v. v = c) xs)"
proof -
  have "mset (filter (\<lambda>v. v = c) (shuffle rnd xs)) = mset (filter (\<lambda>v. v = c) xs)"
    by (simp add: shuffle_mset)
  then show ?thesis by (metis size_mset)
qed

lemma answers_correct_count:
  "length (filter isCorrect (map (make_answer e p sp) (enumerate n vs)))
     = length (filter (\<lambda>v. v = correctAnswer p) vs)"
  by (induction vs arbitrary: n) (simp_all add: make_answer_def)

lemma answers_flags:
  "list_all (\<lambda>a. isCorrect a \<longleftrightarrow> answer_value a = correctAnswer p)
     (map (make_answer e p sp) (enumerate n vs))"
  by (induction vs arbitrary: n) (simp_all add: make_answer_def)

lemma answers_positions:
  "list_all (\<lambda>(index, a). answer_x a = sp * (real index + 1) \<and> answer_y a = 100)
     (enumerate n (map (make_answer e p sp) (enumerate n vs)))"
  by (induction vs arbitrary: n) (simp_all add: make_answer_def)

lemma generated_candidates:
  assumes "wrongAnswers_spec
             (correctAnswer (generateProblem e (operation cfg) (specificNumber cfg))) 3
             (generateWrongAnswers e
                (correctAnswer (generateProblem e (operation cfg) (specificNumber cfg))) 3)"
  shows "candidates_ok (fst (generateNewProblem e cfg)) (snd (generateNewProblem e cfg))"
proof -
  define p where "p = generateProblem e (operation cfg) (specificNumber cfg)"
  define ws where "ws = generateWrongAnswers e (correctAnswer p) 3"
  define vs where "vs = shuffle (random e) (correctAnswer p # ws)"
  have w: "length ws = 3" "correctAnswer p \<notin> set ws"
    using assms by (simp_all add: wrongAnswers_spec_def p_def ws_def)
  have len: "length vs = 4"
    using w by (simp add: vs_def shuffle_length)
  have g: "generateNewProblem e cfg
             = (p, map (make_answer e p (GAME_WIDTH / 5)) (enumerate 0 vs))"
    using len by (simp add: generateNewProblem_def Let_def p_def ws_def vs_def)
  have "filter (\<lambda>v. v = correctAnswer p) ws = []"
    using w by (auto simp: filter_empty_conv)
  then have one: "length (filter (\<lambda>v. v = correctAnswer p) vs) = 1"
    by (simp add: vs_def shuffle_count)
  show ?thesis
    unfolding candidates_ok_def g fst_conv snd_conv
  proof (intro conjI)
    show "length (map (make_answer e p (GAME_WIDTH / 5)) (enumerate 0 vs)) = 4"
      using len by simp
    show "length (filter isCorrect (map (make_answer e p (GAME_WIDTH / 5)) (enumerate 0 vs))) = 1"
      using one by (simp only: answers_correct_count)
    show "list_all (\<lambda>a. isCorrect a \<longleftrightarrow> answer_value a = correctAnswer p)
            (map (make_answer e p (GAME_WIDTH / 5)) (enumerate 0 vs))"
      by (rule answers_flags)
    show "list_all (\<lambda>(index, a). answer_x a = GAME_WIDTH / 5 * (real index + 1) \<and> answer_y a = 100)
            (enumerate 0 (map (make_answer e p (GAME_WIDTH / 5)) (enumerate 0 vs)))"
      by (rule answers_positions)
  qed
qed

text \<open>
  C7. Provided \<open>generateWrongAnswers\<close> keeps the promise the spec makes for it (three
  values, none equal to the correct answer), every candidate set \<open>generateNewProblem\<close>
  builds has exactly 4 candidates, exactly one of them correct, the flag set exactly on
  the candidates whose value is the problem's correct answer, and candidate \<open>i\<close> at
  \<open>x = GAME_WIDTH / 5 * (i + 1)\<close>, \<open>y = 100\<close>. \<open>START_GAME\<close>, \<open>NEXT_PROBLEM\<close> and a
  hit on the correct candidate install exactly that problem and candidate set.
\<close>

theorem candidate_sets:
  "wrongAnswers_spec
     (correctAnswer (generateProblem e (operation cfg) (specificNumber cfg))) 3
     (generateWrongAnswers e
        (correctAnswer (generateProblem e (operation cfg) (specificNumber cfg))) 3) \<Longrightarrow>
   candidates_ok (fst (generateNewProblem e cfg)) (snd (generateNewProblem e cfg))
   \<and> currentProblem (fst (gameReducer e ls s (START_GAME cfg))) = Some (fst (generateNewProblem e cfg))
   \<and> fallingAnswers (fst (gameReducer e ls s (START_GAME cfg))) = snd (generateNewProblem e cfg)
   \<and> (settings s = Some cfg \<longrightarrow>
        currentProblem (fst (gameReducer e ls s NEXT_PROBLEM)) = Some (fst (generateNewProblem e cfg))
        \<and> fallingAnswers (fst (gameReducer e ls s NEXT_PROBLEM)) = snd (generateNewProblem e cfg))
   \<and> (settings s = Some cfg \<and> hits_correct s aid \<longrightarrow>
        currentProblem (fst (gameReducer e ls s (HIT_ANSWER aid)))
          = Some (fst (generateNewProblem e cfg))
        \<and> fallingAnswers (fst (gameReducer e ls s (HIT_ANSWER aid)))
          = snd (generateNewProblem e cfg))"
proof -
  assume w: "wrongAnswers_spec
     (correctAnswer (generateProblem e (operation cfg) (specificNumber cfg))) 3
     (generateWrongAnswers e
        (correctAnswer (generateProblem e (operation cfg) (specificNumber cfg))) 3)"
  have a: "candidates_ok (fst (generateNewProblem e cfg)) (snd (generateNewProblem e cfg))"
    using w by (rule generated_candidates)
  have b: "currentProblem (fst (gameReducer e ls s (START_GAME cfg)))
             = Some (fst (generateNewProblem e cfg))
           \<and> fallingAnswers (fst (gameReducer e ls s (START_GAME cfg)))
             = snd (generateNewProblem e cfg)"
    by (simp add: split_beta)
  have c: "settings s = Some cfg \<longrightarrow>
        currentProblem (fst (gameReducer e ls s NEXT_PROBLEM)) = Some (fst (generateNewProblem e cfg))
        \<and> fallingAnswers (fst (gameReducer e ls s NEXT_PROBLEM)) = snd (generateNewProblem e cfg)"
    by (simp add: split_beta)
  have d: "settings s = Some cfg \<and> hits_correct s aid \<longrightarrow>
        currentProblem (fst (gameReducer e ls s (HIT_ANSWER aid)))
          = Some (fst (generateNewProblem e cfg))
        \<and> fallingAnswers (fst (gameReducer e ls s (HIT_ANSWER aid)))
          = snd (generateNewProblem e cfg)"
    by (auto simp: hits_correct_def split_beta Let_def split: option.splits)
  from a b c d show ?thesis by blast
qed

theorem candidate_sets_witness:
  "wrongAnswers_spec
     (correctAnswer (generateProblem demo_env (operation demo_settings) (specificNumber demo_settings)))
     3
     (generateWrongAnswers demo_env
        (correctAnswer
           (generateProblem demo_env (operation demo_settings) (specificNumber demo_settings))) 3)
   \<and> candidates_ok (fst (generateNewProblem demo_env demo_settings))
        (snd (generateNewProblem demo_env demo_settings))
   \<and> fallingAnswers (fst (gameReducer demo_env empty_storage createInitialState
        (START_GAME demo_settings))) = snd (generateNewProblem demo_env demo_settings)
   \<and> settings demo_playing = Some demo_settings
   \<and> hits_correct demo_playing ''answer-1000-0''
   \<and> fallingAnswers (fst (gameReducer demo_env empty_storage demo_playing NEXT_PROBLEM))
       = snd (generateNewProblem demo_env demo_settings)
   \<and> fallingAnswers (fst (gameReducer demo_env empty_storage demo_playing
        (HIT_ANSWER ''answer-1000-0''))) = snd (generateNewProblem demo_env demo_settings)"
proof -
  have s: "settings demo_playing = Some demo_settings"
    by (simp add: demo_playing_eq)
  have h: "hits_correct demo_playing ''answer-1000-0''"
    by (rule demo_hits)
  show ?thesis
    using s h demo_wrong_ok
      candidate_sets [OF demo_wrong_ok, of empty_storage createInitialState "''answer-1000-0''"]
      candidate_sets [OF demo_wrong_ok, of empty_storage demo_playing "''answer-1000-0''"]
    by blast
qed

section \<open>Hits on the correct candidate\<close>

lemma correct_hit_step:
  "hits_correct s aid \<Longrightarrow> settings s = Some cfg \<Longrightarrow>
     gameReducer e ls s (HIT_ANSWER aid)
       = (s\<lparr>score := score s + 10, level := \<lfloor>real_of_int (score s + 10) / 50\<rfloor> + 1,
            currentProblem := Some (fst (generateNewProblem e cfg)),
            fallingAnswers := snd (generateNewProblem e cfg), bullets := []\<rparr>, ls)"
  by (auto simp: hits_correct_def split_beta Let_def split: option.splits)

lemma correct_run:
  "all_hits hits_correct hits (s, ls) \<Longrightarrow> settings s = Some cfg \<Longrightarrow>
     score (fst (dispatch_all (hit_actions hits) (s, ls))) = score s + 10 * int (length hits)
     \<and> settings (fst (dispatch_all (hit_actions hits) (s, ls))) = Some cfg
     \<and> (hits \<noteq> [] \<longrightarrow> level (fst (dispatch_all (hit_actions hits) (s, ls)))
           = \<lfloor>real_of_int (score (fst (dispatch_all (hit_actions hits) (s, ls)))) / 50\<rfloor> + 1)"
proof (induction hits arbitrary: s)
  case Nil
  then show ?case by simp
next
  case (Cons h rest)
  obtain e aid where h: "h = (e, aid)"
    by (cases h)
  define s1 where "s1 = s\<lparr>score := score s + 10, level := \<lfloor>real_of_int (score s + 10) / 50\<rfloor> + 1,
            currentProblem := Some (fst (generateNewProblem e cfg)),
            fallingAnswers := snd (generateNewProblem e cfg), bullets := []\<rparr>"
  have hc: "hits_correct s aid"
    using Cons.prems(1) by (simp add: h)
  have st: "gameReducer e ls s (HIT_ANSWER aid) = (s1, ls)"
    unfolding s1_def using hc Cons.prems(2) by (rule correct_hit_step)
  have rest: "all_hits hits_correct rest (s1, ls)"
    using Cons.prems(1) by (simp add: h st del: gameReducer.simps)
  have s1: "settings s1 = Some cfg" "score s1 = score s + 10"
    "level s1 = \<lfloor>real_of_int (score s1) / 50\<rfloor> + 1"
    using Cons.prems(2) by (simp_all add: s1_def)
  have run: "dispatch_all (hit_actions (h # rest)) (s, ls) = dispatch_all (hit_actions rest) (s1, ls)"
    by (simp add: h st del: gameReducer.simps)
  show ?case
    unfolding run
  proof (cases rest)
    case Nil
    then show "score (fst (dispatch_all (hit_actions rest) (s1, ls)))
          = score s + 10 * int (length (h # rest))
        \<and> settings (fst (dispatch_all (hit_actions rest) (s1, ls))) = Some cfg
        \<and> (h # rest \<noteq> [] \<longrightarrow> level (fst (dispatch_all (hit_actions rest) (s1, ls)))
              = \<lfloor>real_of_int (score (fst (dispatch_all (hit_actions rest) (s1, ls)))) / 50\<rfloor> + 1)"
      using s1 by simp
  next
    case (Cons h' rest')
    then have "rest \<noteq> []" by simp
    then show "score (fst (dispatch_all (hit_actions rest) (s1, ls)))
          = score s + 10 * int (length (h # rest))
        \<and> settings (fst (dispatch_all (hit_actions rest) (s1, ls))) = Some cfg
        \<and> (h # rest \<noteq> [] \<longrightarrow> level (fst (dispatch_all (hit_actions rest) (s1, ls)))
              = \<lfloor>real_of_int (score (fst (dispatch_all (hit_actions rest) (s1, ls)))) / 50\<rfloor> + 1)"
      using Cons.IH [OF rest s1(1)] s1(2) by simp
  qed
qed

text \<open>
  C3. A game just started has score 0 and level 1. After N hits in a row, each on the
  candidate flagged correct in the state it is dispatched in, the score is 10 N and the
  level is floor(10 N / 50) + 1. A further hit on the correct candidate adds 10 to the
  score, recomputes the level from the new score, installs the problem and candidates
  that \<open>generateNewProblem\<close> returns, and clears the bullets.
\<close>

theorem correct_hits_score:
  "all_hits hits_correct hits (gameReducer e0 ls s0 (START_GAME cfg)) \<Longrightarrow>
     score (fst (gameReducer e0 ls s0 (START_GAME cfg))) = 0
     \<and> level (fst (gameReducer e0 ls s0 (START_GAME cfg))) = 1
     \<and> score (fst (dispatch_all (hit_actions hits) (gameReducer e0 ls s0 (START_GAME cfg))))
         = 10 * int (length hits)
     \<and> level (fst (dispatch_all (hit_actions hits) (gameReducer e0 ls s0 (START_GAME cfg))))
         = \<lfloor>10 * real (length hits) / 50\<rfloor> + 1
     \<and> (hits_correct (fst (dispatch_all (hit_actions hits) (gameReducer e0 ls s0 (START_GAME cfg)))) aid
          \<longrightarrow>
          gameReducer e l (fst (dispatch_all (hit_actions hits) (gameReducer e0 ls s0 (START_GAME cfg))))
              (HIT_ANSWER aid)
            = ((fst (dispatch_all (hit_actions hits) (gameReducer e0 ls s0 (START_GAME cfg))))
                 \<lparr>score := 10 * int (length hits) + 10,
                  level := \<lfloor>real_of_int (10 * int (length hits) + 10) / 50\<rfloor> + 1,
                  currentProblem := Some (fst (generateNewProblem e cfg)),
                  fallingAnswers := snd (generateNewProblem e cfg),
                  bullets := []\<rparr>, l))"
proof -
  assume ah: "all_hits hits_correct hits (gameReducer e0 ls s0 (START_GAME cfg))"
  define s where "s = fst (gameReducer e0 ls s0 (START_GAME cfg))"
  have start: "gameReducer e0 ls s0 (START_GAME cfg) = (s, ls)"
    by (simp add: s_def split_beta)
  have s: "score s = 0" "level s = 1" "settings s = Some cfg"
    by (simp_all add: s_def split_beta createInitialState_def)
  define t where "t = fst (dispatch_all (hit_actions hits) (s, ls))"
  have ah': "all_hits hits_correct hits (s, ls)"
    using ah by (simp only: start)
  note run = correct_run [OF ah' s(3), folded t_def]
  have sc: "score t = 10 * int (length hits)"
    using run s(1) by simp
  have lv: "level t = \<lfloor>10 * real (length hits) / 50\<rfloor> + 1"
  proof (cases hits)
    case Nil
    then show ?thesis using s(2) by (simp add: t_def)
  next
    case (Cons h r)
    then have "level t = \<lfloor>real_of_int (score t) / 50\<rfloor> + 1"
      using run by simp
    then show ?thesis by (simp add: sc)
  qed
  have st: "hits_correct t aid \<longrightarrow>
          gameReducer e l t (HIT_ANSWER aid)
            = (t\<lparr>score := 10 * int (length hits) + 10,
                  level := \<lfloor>real_of_int (10 * int (length hits) + 10) / 50\<rfloor> + 1,
                  currentProblem := Some (fst (generateNewProblem e cfg)),
                  fallingAnswers := snd (generateNewProblem e cfg),
                  bullets := []\<rparr>, l)"
    using run correct_hit_step [of t aid cfg e l] by (simp add: sc del: gameReducer.simps)
  show ?thesis
    unfolding start using s(1,2) sc lv st by (simp only: t_def [symmetric] fst_conv)
qed

theorem correct_hits_score_witness:
  "all_hits hits_correct demo_six_hits
     (gameReducer demo_env empty_storage createInitialState (START_GAME demo_settings))
   \<and> score (fst (dispatch_all (hit_actions demo_six_hits)
        (gameReducer demo_env empty_storage createInitialState (START_GAME demo_settings)))) = 60
   \<and> level (fst (dispatch_all (hit_actions demo_six_hits)
        (gameReducer demo_env empty_storage createInitialState (START_GAME demo_settings)))) = 2"
proof -
  note t = correct_hits_score [OF demo_six_hits_correct, of "''answer-1000-0''" demo_env empty_storage]
  have a: "score (fst (dispatch_all (hit_actions demo_six_hits)
        (gameReducer demo_env empty_storage createInitialState (START_GAME demo_settings))))
      = 10 * int (length demo_six_hits)"
    using t by blast
  have b: "level (fst (dispatch_all (hit_actions demo_six_hits)
        (gameReducer demo_env empty_storage createInitialState (START_GAME demo_settings))))
      = \<lfloor>10 * real (length demo_six_hits) / 50\<rfloor> + 1"
    using t by blast
  have c: "10 * int (length demo_six_hits) = 60"
    by (simp add: demo_six_hits_length)
  have d: "\<lfloor>10 * real (length demo_six_hits) / 50\<rfloor> + 1 = 2"
    by (simp add: demo_six_hits_length)
  from a b c d demo_six_hits_correct show ?thesis
    by (simp only:) 
qed

section \<open>The score in reachable states\<close>

lemma engine_inv_initial: "engine_inv createInitialState"
  by (simp add: engine_inv_def createInitialState_def)

lemma find_Some_nonempty: "find P xs = Some a \<Longrightarrow> xs \<noteq> []"
  by (cases xs) simp_all

lemma engine_inv_step: "engine_inv s \<Longrightarrow> engine_inv (fst (gameReducer e ls s a))"
proof (cases a)
  case (HIT_ANSWER aid)
  assume "engine_inv s"
  then show ?thesis
    by (auto simp: HIT_ANSWER engine_inv_def Let_def split_beta
        dest: find_Some_nonempty split: option.splits)
next
  case (MISS_ANSWER aid)
  assume "engine_inv s"
  then show ?thesis
    by (auto simp: MISS_ANSWER engine_inv_def)
qed (auto simp: engine_inv_def createInitialState_def Let_def split_beta split: option.splits)

lemma engine_inv_run: "engine_inv (fst sl) \<Longrightarrow> engine_inv (fst (dispatch_all acts sl))"
proof (induction acts arbitrary: sl)
  case Nil
  then show ?case by simp
next
  case (Cons x acts)
  obtain e a where x: "x = (e, a)" by (cases x)
  have "engine_inv (fst (gameReducer e (snd sl) (fst sl) a))"
    using Cons.prems by (rule engine_inv_step)
  then have "engine_inv (fst (dispatch_all acts (gameReducer e (snd sl) (fst sl) a)))"
    by (rule Cons.IH)
  then show ?case by (simp add: x del: gameReducer.simps)
qed

lemma step_score: "engine_inv s \<Longrightarrow> score (fst (gameReducer e ls s a)) = score_after s a"
proof (cases a)
  case (HIT_ANSWER aid)
  assume "engine_inv s"
  then show ?thesis
    by (auto simp: HIT_ANSWER engine_inv_def score_after_def hits_correct_def Let_def split_beta
        dest: find_Some_nonempty split: option.splits)
qed (auto simp: score_after_def createInitialState_def Let_def split_beta split: option.splits)

lemma reachable_candidates_have_settings:
  "fallingAnswers (fst (dispatch_all acts (createInitialState, ls))) \<noteq> [] \<Longrightarrow>
     settings (fst (dispatch_all acts (createInitialState, ls))) \<noteq> None"
proof -
  have "engine_inv (fst (createInitialState, ls))"
    by (simp add: engine_inv_initial)
  then have "engine_inv (fst (dispatch_all acts (createInitialState, ls)))"
    by (rule engine_inv_run)
  then show "fallingAnswers (fst (dispatch_all acts (createInitialState, ls))) \<noteq> [] \<Longrightarrow>
     settings (fst (dispatch_all acts (createInitialState, ls))) \<noteq> None"
    by (simp add: engine_inv_def)
qed

text \<open>
  C10. The initial score is 0. In every state reached from the initial state by any
  sequence of actions (under any environments and storage) the score is a non-negative
  multiple of 10, and any further action leaves the score the claim describes: 0 after
  \<open>START_GAME\<close> and \<open>RETURN_TO_MENU\<close>, 10 more after a hit on the correct candidate,
  unchanged otherwise.
\<close>

theorem score_multiple_of_ten:
  "score createInitialState = 0
   \<and> 0 \<le> score (fst (dispatch_all acts (createInitialState, ls)))
   \<and> 10 dvd score (fst (dispatch_all acts (createInitialState, ls)))
   \<and> score (fst (gameReducer e l (fst (dispatch_all acts (createInitialState, ls))) a))
       = score_after (fst (dispatch_all acts (createInitialState, ls))) a"
proof -
  have "engine_inv (fst (createInitialState, ls))"
    by (simp add: engine_inv_initial)
  then have i: "engine_inv (fst (dispatch_all acts (createInitialState, ls)))"
    by (rule engine_inv_run)
  have z: "score createInitialState = 0"
    by (simp add: createInitialState_def)
  from i z step_score [OF i, of e l a] show ?thesis
    by (simp add: engine_inv_def del: gameReducer.simps)
qed

theorem score_multiple_of_ten_witness:
  "10 dvd score (fst (dispatch_all demo_actions (createInitialState, empty_storage)))
   \<and> score (fst (dispatch_all demo_actions (createInitialState, empty_storage))) = 10
   \<and> score (fst (gameReducer demo_env empty_storage
         (fst (dispatch_all demo_actions (createInitialState, empty_storage)))
         (HIT_ANSWER ''answer-1000-0'')))
       = score_after (fst (dispatch_all demo_actions (createInitialState, empty_storage)))
           (HIT_ANSWER ''answer-1000-0'')"
  using score_multiple_of_ten [of demo_actions empty_storage demo_env empty_storage
      "HIT_ANSWER ''answer-1000-0''"] demo_actions_score
  by blast

end
